theory Spec2Isabelle
  imports Complex_Main "HOL-Library.Stream" "HOL-Library.Word"
begin

section \<open>The F110 simulator environment (\<^verbatim>\<open>sim_f110_core.py\<close>)\<close>

text \<open>
  The theory embeds class \<^verbatim>\<open>SIM_f110Env\<close>. Python floats are read as reals: the code
  only moves LiDAR coordinates around and compares a steering angle with the constants
  \<^verbatim>\<open>0.05\<close> and \<^verbatim>\<open>-0.05\<close>. An exception is a value \<open>Inl err\<close>; a call that never
  returns (the LiDAR polling loop) is the value \<open>None\<close>. The timed waits
  (\<^verbatim>\<open>time.sleep\<close>) change no state and are left out.
\<close>

subsection \<open>Errors\<close>

text \<open>
  \<open>ValueError\<close> is what \<^verbatim>\<open>numpy.reshape\<close> raises on a size mismatch, \<open>KeyError\<close> what a
  dictionary raises on a missing key. \<open>ObservationUnavailable\<close> and \<open>SensorTimeout\<close> are
  the error kinds the specification names; no statement of the source raises them.
\<close>

datatype error = ValueError | KeyError | ObservationUnavailable | SensorTimeout

subsection \<open>Geometry transform: \<^verbatim>\<open>pc_to_np\<close>\<close>

text \<open>A LiDAR sample of the simulator; only its flat point cloud is read.\<close>

record lidar_data =
  point_cloud :: "real list"

text \<open>
  \<^verbatim>\<open>np.reshape(pc, (-1, 3))\<close>: the rows of three consecutive scalars; numpy raises
  \<^verbatim>\<open>ValueError\<close> when the size is not a multiple of 3 (an empty array becomes the
  array of shape (0, 3)).
\<close>

fun rows3 :: "'a list \<Rightarrow> ('a \<times> 'a \<times> 'a) list" where
  "rows3 (x # y # z # rest) = (x, y, z) # rows3 rest"
| "rows3 _ = []"

definition reshape_rows3 :: "'a list \<Rightarrow> error + ('a \<times> 'a \<times> 'a) list" where
  "reshape_rows3 pc = (if length pc mod 3 = 0 then Inr (rows3 pc) else Inl ValueError)"

text \<open>
  \<^verbatim>\<open>pcnp[..., 0:2]\<close> keeps the first two columns; \<^verbatim>\<open>out[:, 0] = pcnp[:, 1]\<close> and
  \<^verbatim>\<open>out[:, 1] = pcnp[:, 0]\<close> fill the result with the columns exchanged.
\<close>

definition pc_to_np :: "lidar_data \<Rightarrow> error + (real \<times> real) list" where
  "pc_to_np lidarData =
     (let pc = point_cloud lidarData in
      case reshape_rows3 pc of
        Inl err \<Rightarrow> Inl err
      | Inr rows \<Rightarrow>
          let pcnp = map (\<lambda>(x, y, z). (x, y)) rows;
              out = map (\<lambda>(c0, c1). (c1, c0)) pcnp
          in Inr out)"

text \<open>A point cloud of N triples, as the flat sequence the simulator delivers.\<close>

fun flatten :: "('a \<times> 'a \<times> 'a) list \<Rightarrow> 'a list" where
  "flatten [] = []"
| "flatten ((x, y, z) # ts) = x # y # z # flatten ts"

subsection \<open>Lidar processing: \<^verbatim>\<open>process_lidar\<close>\<close>

text \<open>
  \<^verbatim>\<open>process_lidar\<close> calls \<^verbatim>\<open>pc_to_np\<close>, binds the locals \<^verbatim>\<open>pt_to_rad\<close>,
  \<^verbatim>\<open>lidar_out\<close> and \<^verbatim>\<open>rads\<close>, and ends: every statement after them is commented
  out, the last of them \<^verbatim>\<open>return pcnp\<close>. A Python function that ends without a
  \<^verbatim>\<open>return\<close> returns \<^verbatim>\<open>None\<close>, here the value \<open>None\<close> of the option type; an array
  would be \<open>Some\<close> of its rows.
\<close>

definition process_lidar :: "lidar_data \<Rightarrow> error + (real \<times> real) list option" where
  "process_lidar lidarData =
     (case pc_to_np lidarData of
        Inl err \<Rightarrow> Inl err
      | Inr lidarData' \<Rightarrow> Inr None)"

subsection \<open>Image decoding: \<^verbatim>\<open>_get_imgs\<close>\<close>

record image_response =
  image_data_uint8 :: "8 word list"
  height :: int
  width :: int

text \<open>A decoded frame: a numpy array of three dimensions over the bytes of the buffer.\<close>

record ndarray3 =
  shape :: "nat \<times> nat \<times> nat"
  buffer :: "8 word list"

text \<open>
  numpy holds every dimension and every array size in its index type \<^verbatim>\<open>npy_intp\<close>, a
  signed 64-bit integer on the platforms the simulator runs on.
\<close>

definition npy_intp_max :: int where
  "npy_intp_max = 2 ^ 63 - 1"

text \<open>
  \<^verbatim>\<open>arr.reshape(h, w, -1)\<close> of a flat array. numpy raises \<^verbatim>\<open>ValueError\<close>
  \<^item> for a negative \<^verbatim>\<open>h\<close> or \<^verbatim>\<open>w\<close>: it would be a second unknown dimension;
  \<^item> for an \<^verbatim>\<open>h\<close> or \<^verbatim>\<open>w\<close> beyond the index type (maximum allowed dimension exceeded);
  \<^item> when the product \<^verbatim>\<open>h * w\<close> of the known dimensions overflows the index type;
  \<^item> when \<^verbatim>\<open>h * w\<close> is 0, and when the size is not a multiple of \<^verbatim>\<open>h * w\<close>.
  Otherwise the last dimension is the quotient.
\<close>

definition reshape_hw :: "8 word list \<Rightarrow> int \<Rightarrow> int \<Rightarrow> error + ndarray3" where
  "reshape_hw arr h w =
     (if h < 0 \<or> w < 0 then Inl ValueError
      else if npy_intp_max < h \<or> npy_intp_max < w then Inl ValueError
      else if npy_intp_max < h * w then Inl ValueError
      else if h * w = 0 then Inl ValueError
      else if int (length arr) mod (h * w) \<noteq> 0 then Inl ValueError
      else Inr \<lparr>shape = (nat h, nat w, length arr div nat (h * w)), buffer = arr\<rparr>)"

text \<open>\<^verbatim>\<open>np.fromstring(.., dtype=np.uint8)\<close> reads the byte string as it is.\<close>

definition bytestr_to_np :: "image_response \<Rightarrow> error + ndarray3" where
  "bytestr_to_np rep = reshape_hw (image_data_uint8 rep) (height rep) (width rep)"

text \<open>\<^verbatim>\<open>list(map(f, xs))\<close> where \<^verbatim>\<open>f\<close> may raise: the first exception ends the call.\<close>

fun list_map_raising :: "('a \<Rightarrow> error + 'b) \<Rightarrow> 'a list \<Rightarrow> error + 'b list" where
  "list_map_raising f [] = Inr []"
| "list_map_raising f (x # xs) =
     (case f x of
        Inl err \<Rightarrow> Inl err
      | Inr y \<Rightarrow> (case list_map_raising f xs of Inl err \<Rightarrow> Inl err | Inr ys \<Rightarrow> Inr (y # ys)))"

subsection \<open>The simulator client\<close>

text \<open>
  The simulator is outside the repository. Its answers are given in advance, one per
  call: the stream of LiDAR samples that successive \<^verbatim>\<open>getLidarData\<close> calls return and
  the stream of response lists that successive \<^verbatim>\<open>simGetImages\<close> calls return. The
  commands sent to it are logged.
\<close>

record car_controls =
  throttle :: "real option"
  steering :: "real option"

datatype image_type = Scene

record image_request =
  camera_name :: string
  image_type :: image_type
  pixels_as_float :: bool
  compress :: bool

datatype sim_command =
    ConfirmConnection
  | EnableApiControl bool
  | SimReset
  | SetCarControls car_controls
  | SimGetImages "image_request list"

record car_client =
  lidar_feed :: "lidar_data stream"
  image_feed :: "image_response list stream"
  sent :: "sim_command list"

definition send :: "sim_command \<Rightarrow> car_client \<Rightarrow> car_client" where
  "send cmd c = c\<lparr>sent := sent c @ [cmd]\<rparr>"

definition getLidarData :: "car_client \<Rightarrow> lidar_data \<times> car_client" where
  "getLidarData c = (shd (lidar_feed c), c\<lparr>lidar_feed := stl (lidar_feed c)\<rparr>)"

definition simGetImages :: "image_request list \<Rightarrow> car_client \<Rightarrow> image_response list \<times> car_client" where
  "simGetImages requests c =
     (shd (image_feed c), (send (SimGetImages requests) c)\<lparr>image_feed := stl (image_feed c)\<rparr>)"

definition label_to_func :: "string \<Rightarrow> image_request" where
  "label_to_func lbl =
     \<lparr>camera_name = lbl, image_type = Scene, pixels_as_float = False, compress = False\<rparr>"

definition get_imgs :: "string list \<Rightarrow> car_client \<Rightarrow> (error + ndarray3 list) \<times> car_client" where
  "get_imgs labels c =
     (let (responses, c') = simGetImages (map label_to_func labels) c;
          images = list_map_raising bytestr_to_np responses
      in (images, c'))"

subsection \<open>History buffer\<close>

text \<open>A steering command is the dictionary the source builds; an action likewise.\<close>

type_synonym steer_dict = "string \<rightharpoonup> real"
type_synonym action = "string \<rightharpoonup> real"

text \<open>
  \<^verbatim>\<open>collections.deque\<close> with a bound: \<^verbatim>\<open>deque(maxlen=m)\<close> is empty, and
  \<^verbatim>\<open>append(x)\<close> puts the item at the right end, after which a deque that has grown
  beyond its \<^verbatim>\<open>maxlen\<close> loses its leftmost item.
\<close>

record 'a deque =
  maxlen :: nat
  items :: "'a list"

definition deque_new :: "nat \<Rightarrow> 'a deque" where
  "deque_new m = \<lparr>maxlen = m, items = []\<rparr>"

definition deque_append :: "'a deque \<Rightarrow> 'a \<Rightarrow> 'a deque" where
  "deque_append d x =
     (let xs = items d @ [x]
      in if maxlen d < length xs then d\<lparr>items := tl xs\<rparr> else d\<lparr>items := xs\<rparr>)"

text \<open>
  \<^verbatim>\<open>add_to_history\<close>: \<^verbatim>\<open>steer["angle"]\<close> raises \<^verbatim>\<open>KeyError\<close> without the key; the
  loop \<^verbatim>\<open>for i in range(40)\<close> appends the same command forty times.
\<close>

definition add_to_history :: "steer_dict deque \<Rightarrow> steer_dict \<Rightarrow> error + steer_dict deque" where
  "add_to_history history steer =
     (case steer ''angle'' of
        None \<Rightarrow> Inl KeyError
      | Some angle \<Rightarrow>
          if \<bar>angle\<bar> > 0.05 \<and> angle < - 0.05
          then Inr (foldl (\<lambda>h i. deque_append h steer) history [0..<40])
          else Inr history)"

subsection \<open>The environment: \<^verbatim>\<open>_get_obs\<close>, \<^verbatim>\<open>reset\<close>, \<^verbatim>\<open>step\<close>\<close>

record env =
  client :: car_client
  history :: "steer_dict deque"

text \<open>\<^verbatim>\<open>__init__\<close>: connect, take control, and start with an empty bounded history.\<close>

definition init :: "car_client \<Rightarrow> env" where
  "init c = \<lparr>client = send (EnableApiControl True) (send ConfirmConnection c),
              history = deque_new 500\<rparr>"

text \<open>The observation dictionary with its three keys.\<close>

record obs =
  lidar_pc :: "(real \<times> real) list option"
  steer :: steer_dict
  img :: "ndarray3 list"

text \<open>
  The polling loop \<^verbatim>\<open>while True: lidarData = getLidarData(); if len(..) >= 3: break\<close>.
  It has no bound: against a simulator that never delivers three scalars it does not
  return, which is the value \<open>None\<close>.
\<close>

partial_function (option) poll_lidar :: "car_client \<Rightarrow> (lidar_data \<times> car_client) option" where
  "poll_lidar c =
     (if 3 \<le> length (point_cloud (fst (getLidarData c)))
      then Some (getLidarData c)
      else poll_lidar (snd (getLidarData c)))"

text \<open>
  The outcome of a call on the environment: \<open>None\<close> when it never returns, otherwise
  the value returned or the exception raised, with the environment it leaves behind.
\<close>

type_synonym 'a outcome = "((error + 'a) \<times> env) option"

definition get_obs :: "env \<Rightarrow> obs outcome" where
  "get_obs e =
     (case get_imgs [''front_center''] (client e) of
        (Inl err, c1) \<Rightarrow> Some (Inl err, e\<lparr>client := c1\<rparr>)
      | (Inr imgs, c1) \<Rightarrow>
          (case poll_lidar c1 of
             None \<Rightarrow> None
           | Some (lidarData, c2) \<Rightarrow>
               (case process_lidar lidarData of
                  Inl err \<Rightarrow> Some (Inl err, e\<lparr>client := c2\<rparr>)
                | Inr lidarData' \<Rightarrow>
                    let steer = [''angle'' \<mapsto> 0.0, ''steering_angle_velocity'' \<mapsto> 0.0,
                                 ''speed'' \<mapsto> 0.0];
                        latest_dict = \<lparr>lidar_pc = lidarData', steer = steer, img = imgs\<rparr>
                    in (case add_to_history (history e) steer of
                          Inl err \<Rightarrow> Some (Inl err, e\<lparr>client := c2\<rparr>)
                        | Inr history' \<Rightarrow>
                            Some (Inr latest_dict, e\<lparr>client := c2, history := history'\<rparr>)))))"

definition reset :: "env \<Rightarrow> obs outcome" where
  "reset e = get_obs (e\<lparr>client := send SimReset (client e)\<rparr>)"

definition get_reward :: int where
  "get_reward = 0"

definition tooclose :: bool where
  "tooclose = False"

text \<open>\<^verbatim>\<open>step\<close> returns the tuple \<^verbatim>\<open>obs, reward, done, info\<close>; \<^verbatim>\<open>info\<close> is a new empty dictionary.\<close>

type_synonym step_result = "obs \<times> int \<times> bool \<times> (string \<rightharpoonup> real)"

definition step :: "env \<Rightarrow> action \<Rightarrow> step_result outcome" where
  "step e action =
     (let car_controls = \<lparr>throttle = action ''speed'', steering = action ''angle''\<rparr>;
          e1 = e\<lparr>client := send (SetCarControls car_controls) (client e)\<rparr>
      in case get_obs e1 of
           None \<Rightarrow> None
         | Some (Inl err, e2) \<Rightarrow> Some (Inl err, e2)
         | Some (Inr obs, e2) \<Rightarrow>
             (let reward = get_reward; done' = tooclose; info = Map.empty
              in Some (Inr (obs, reward, done', info), e2)))"

text \<open>
  A caller of the public interface: a sequence of \<^verbatim>\<open>reset()\<close> and \<^verbatim>\<open>step(action)\<close>
  calls on one environment, going on after an exception; \<open>None\<close> when a call never
  returns.
\<close>

datatype call = Reset | Step action

fun run :: "call list \<Rightarrow> env \<Rightarrow> env option" where
  "run [] e = Some e"
| "run (Reset # calls) e = (case reset e of None \<Rightarrow> None | Some (r, e') \<Rightarrow> run calls e')"
| "run (Step a # calls) e = (case step e a of None \<Rightarrow> None | Some (r, e') \<Rightarrow> run calls e')"

subsection \<open>Simulator doubles\<close>

text \<open>
  Concrete simulators and environments on which the functions above are evaluated: a
  LiDAR sample of four points, a 2 by 2 camera frame with a buffer of \<open>n\<close> bytes, a
  simulator that always answers with both, one that never delivers a LiDAR point, one
  that delivers a point on its third answer, one whose camera frame is one byte short,
  an empty frame whose declared height times width is beyond the index type of numpy,
  and an environment whose history already holds forty commands.
\<close>

definition sample4 :: lidar_data where
  "sample4 = \<lparr>point_cloud = [1, 2, 3, 4, 5, 6, 7, 8, 9, 10, 11, 12]\<rparr>"

definition frame_2x2 :: "nat \<Rightarrow> image_response" where
  "frame_2x2 n = \<lparr>image_data_uint8 = replicate n 0, height = 2, width = 2\<rparr>"

definition mock_client :: car_client where
  "mock_client = \<lparr>lidar_feed = sconst sample4, image_feed = sconst [frame_2x2 12], sent = []\<rparr>"

definition never_ready_client :: car_client where
  "never_ready_client =
     \<lparr>lidar_feed = sconst \<lparr>point_cloud = []\<rparr>, image_feed = sconst [frame_2x2 12], sent = []\<rparr>"

definition slow_client :: car_client where
  "slow_client =
     \<lparr>lidar_feed = \<lparr>point_cloud = []\<rparr> ## \<lparr>point_cloud = [1, 2]\<rparr> ## \<lparr>point_cloud = [7, 8, 9]\<rparr>
                    ## sconst \<lparr>point_cloud = []\<rparr>,
      image_feed = sconst [frame_2x2 12], sent = []\<rparr>"

definition bad_image_client :: car_client where
  "bad_image_client = \<lparr>lidar_feed = sconst sample4, image_feed = sconst [frame_2x2 11], sent = []\<rparr>"

definition huge_frame :: image_response where
  "huge_frame = \<lparr>image_data_uint8 = [], height = 2 ^ 62, width = 2\<rparr>"

definition zero_action :: action where
  "zero_action = [''angle'' \<mapsto> 0.0, ''speed'' \<mapsto> 0.0]"

definition recorded_env :: env where
  "recorded_env = \<lparr>client = mock_client,
                    history = \<lparr>maxlen = 500, items = replicate 40 [''angle'' \<mapsto> - 0.3]\<rparr>\<rparr>"

section \<open>Properties\<close>

subsection \<open>Geometry transform\<close>

lemma length_flatten: "length (flatten ts) = 3 * length ts"
  by (induction ts rule: flatten.induct) simp_all

lemma rows3_flatten: "rows3 (flatten ts) = ts"
  by (induction ts rule: flatten.induct) simp_all

text \<open>
  Claim C4. The geometry transform maps a point cloud of N triples (any N, also 0) to
  exactly N planar pairs; the pair at index i is (y, x) of the i-th triple, so the two
  axes are exchanged; the single point (a, b, c) becomes (b, a).
\<close>

theorem pc_to_np_swaps:
  "pc_to_np \<lparr>point_cloud = flatten ts\<rparr> = Inr (map (\<lambda>(x, y, z). (y, x)) ts)
   \<and> (\<exists>out. pc_to_np \<lparr>point_cloud = flatten ts\<rparr> = Inr out \<and> length out = length ts)
   \<and> pc_to_np \<lparr>point_cloud = [a, b, c]\<rparr> = Inr [(b, a)]"
proof -
  have main: "pc_to_np \<lparr>point_cloud = flatten ts\<rparr> = Inr (map (\<lambda>(x, y, z). (y, x)) ts)"
    by (simp add: pc_to_np_def reshape_rows3_def length_flatten rows3_flatten
        case_prod_unfold comp_def)
  have single: "pc_to_np \<lparr>point_cloud = [a, b, c]\<rparr> = Inr [(b, a)]"
    by (simp add: pc_to_np_def reshape_rows3_def)
  from main single show ?thesis by simp
qed

subsection \<open>The polling loop\<close>

lemma poll_now:
  "3 \<le> length (point_cloud (shd (lidar_feed c))) \<Longrightarrow> poll_lidar c = Some (getLidarData c)"
  by (subst poll_lidar.simps) (simp add: getLidarData_def)

lemma poll_later:
  "length (point_cloud (shd (lidar_feed c))) < 3 \<Longrightarrow>
   poll_lidar c = poll_lidar (c\<lparr>lidar_feed := stl (lidar_feed c)\<rparr>)"
  by (subst poll_lidar.simps) (simp add: getLidarData_def)

lemma poll_at:
  "\<forall>j<k. length (point_cloud (lidar_feed c !! j)) < 3 \<Longrightarrow>
   3 \<le> length (point_cloud (lidar_feed c !! k)) \<Longrightarrow>
   poll_lidar c = Some (lidar_feed c !! k, c\<lparr>lidar_feed := sdrop (Suc k) (lidar_feed c)\<rparr>)"
proof (induction k arbitrary: c)
  case 0
  then show ?case by (simp add: poll_now getLidarData_def)
next
  case (Suc k)
  let ?c = "c\<lparr>lidar_feed := stl (lidar_feed c)\<rparr>"
  from Suc.prems(1) have short: "length (point_cloud (shd (lidar_feed c))) < 3"
    by (metis snth.simps(1) zero_less_Suc)
  have "\<forall>j<k. length (point_cloud (lidar_feed ?c !! j)) < 3"
    using Suc.prems(1) by auto
  moreover have "3 \<le> length (point_cloud (lidar_feed ?c !! k))"
    using Suc.prems(2) by simp
  ultimately have IH: "poll_lidar ?c = Some (lidar_feed ?c !! k, ?c\<lparr>lidar_feed := sdrop (Suc k) (lidar_feed ?c)\<rparr>)"
    by (rule Suc.IH)
  have "poll_lidar c = poll_lidar ?c" using short by (rule poll_later)
  also note IH
  finally show ?case by simp
qed

lemma poll_Some:
  "poll_lidar c = Some r \<Longrightarrow>
   \<exists>k. (\<forall>j<k. length (point_cloud (lidar_feed c !! j)) < 3)
      \<and> 3 \<le> length (point_cloud (lidar_feed c !! k))
      \<and> r = (lidar_feed c !! k, c\<lparr>lidar_feed := sdrop (Suc k) (lidar_feed c)\<rparr>)"
proof (induction c r rule: poll_lidar.raw_induct[rotated 1, consumes 1])
  case (1 poll c r)
  show ?case
  proof (cases "3 \<le> length (point_cloud (shd (lidar_feed c)))")
    case True
    with 1(2) have "r = (shd (lidar_feed c), c\<lparr>lidar_feed := stl (lidar_feed c)\<rparr>)"
      by (simp add: getLidarData_def)
    with True show ?thesis by (intro exI[of _ 0]) simp
  next
    case False
    let ?c = "c\<lparr>lidar_feed := stl (lidar_feed c)\<rparr>"
    from False 1(2) have "poll ?c = Some r" by (simp add: getLidarData_def)
    then have "\<exists>k. (\<forall>j<k. length (point_cloud (lidar_feed ?c !! j)) < 3)
         \<and> 3 \<le> length (point_cloud (lidar_feed ?c !! k))
         \<and> r = (lidar_feed ?c !! k, ?c\<lparr>lidar_feed := sdrop (Suc k) (lidar_feed ?c)\<rparr>)"
      by (rule 1(1))
    then obtain k where
      kk: "(\<forall>j<k. length (point_cloud (lidar_feed ?c !! j)) < 3)
         \<and> 3 \<le> length (point_cloud (lidar_feed ?c !! k))
         \<and> r = (lidar_feed ?c !! k, ?c\<lparr>lidar_feed := sdrop (Suc k) (lidar_feed ?c)\<rparr>)" ..
    then have k: "\<forall>j<k. length (point_cloud (lidar_feed ?c !! j)) < 3"
         "3 \<le> length (point_cloud (lidar_feed ?c !! k))"
         "r = (lidar_feed ?c !! k, ?c\<lparr>lidar_feed := sdrop (Suc k) (lidar_feed ?c)\<rparr>)"
      by simp_all
    have "\<forall>j<Suc k. length (point_cloud (lidar_feed c !! j)) < 3"
    proof (intro allI impI)
      fix j assume "j < Suc k"
      then show "length (point_cloud (lidar_feed c !! j)) < 3"
        using False k(1) by (cases j) auto
    qed
    with k(2,3) show ?thesis by (intro exI[of _ "Suc k"]) simp
  qed
qed

lemma poll_never:
  "\<forall>k. length (point_cloud (lidar_feed c !! k)) < 3 \<Longrightarrow> poll_lidar c = None"
proof (rule ccontr)
  assume a: "\<forall>k. length (point_cloud (lidar_feed c !! k)) < 3" and "poll_lidar c \<noteq> None"
  then obtain r where "poll_lidar c = Some r" by auto
  from poll_Some[OF this] a show False by (meson not_le)
qed

subsection \<open>The bounded history\<close>

lemma maxlen_deque_append: "maxlen (deque_append d x) = maxlen d"
  by (simp add: deque_append_def Let_def)

lemma items_deque_append:
  "length (items d) \<le> maxlen d \<Longrightarrow>
   items (deque_append d x) = drop (Suc (length (items d)) - maxlen d) (items d @ [x])"
  by (cases "items d") (auto simp: deque_append_def Let_def Suc_diff_le)

lemma drop_snoc_tl:
  "k \<le> length xs \<Longrightarrow> tl (drop k xs @ [e]) = drop (Suc k) (xs @ [e])"
proof -
  assume "k \<le> length xs"
  then have app: "drop k (xs @ [e]) = drop k xs @ [e]" by simp
  have "drop (Suc k) (xs @ [e]) = tl (drop k (xs @ [e]))"
    by (simp only: drop_Suc tl_drop)
  then show ?thesis by (simp only: app)
qed

lemma deque_append_full:
  "length (items d) = maxlen d \<Longrightarrow> deque_append d x = d\<lparr>items := tl (items d @ [x])\<rparr>"
  by (simp add: deque_append_def Let_def)

lemma deque_append_room:
  "length (items d) < maxlen d \<Longrightarrow> deque_append d x = d\<lparr>items := items d @ [x]\<rparr>"
  by (simp add: deque_append_def Let_def)

lemma foldl_deque_append:
  "length (items d) \<le> maxlen d \<Longrightarrow>
   foldl deque_append d es = d\<lparr>items := drop (length (items d) + length es - maxlen d) (items d @ es)\<rparr>"
proof (induction es rule: rev_induct)
  case Nil
  then show ?case by simp
next
  case (snoc e es)
  define xs where "xs = items d @ es"
  define k where "k = length xs - maxlen d"
  let ?d = "d\<lparr>items := drop k xs\<rparr>"
  have fold: "foldl deque_append d es = ?d" using snoc by (simp add: xs_def k_def)
  have goal: "deque_append ?d e = d\<lparr>items := drop (length (xs @ [e]) - maxlen d) (xs @ [e])\<rparr>"
  proof (cases "length xs < maxlen d")
    case True
    then have "k = 0" by (simp add: k_def)
    with True show ?thesis by (simp add: deque_append_room Suc_diff_le)
  next
    case False
    then have full: "length (items ?d) = maxlen ?d" and kle: "k \<le> length xs"
      by (simp_all add: k_def)
    have "deque_append ?d e = ?d\<lparr>items := tl (items ?d @ [e])\<rparr>"
      using full by (rule deque_append_full)
    also have "\<dots> = d\<lparr>items := drop (Suc k) (xs @ [e])\<rparr>"
      using kle by (simp add: drop_snoc_tl)
    also have "Suc k = length (xs @ [e]) - maxlen d"
      using False by (simp add: k_def Suc_diff_le)
    finally show ?thesis .
  qed
  show ?case using goal by (simp add: fold xs_def)
qed

lemma foldl_const_replicate: "foldl (\<lambda>h i. f h x) d ns = foldl f d (replicate (length ns) x)"
  by (induction ns arbitrary: d) simp_all

lemma append_forty:
  "length (items d) \<le> maxlen d \<Longrightarrow>
   foldl (\<lambda>h i. deque_append h x) d [0..<40]
     = d\<lparr>items := drop (length (items d) + 40 - maxlen d) (items d @ replicate 40 x)\<rparr>"
  by (simp add: foldl_const_replicate foldl_deque_append)

lemma add_to_history_cases:
  "add_to_history h s =
     (case s ''angle'' of
        None \<Rightarrow> Inl KeyError
      | Some a \<Rightarrow> if a < - 0.05 then Inr (foldl (\<lambda>h i. deque_append h s) h [0..<40]) else Inr h)"
  by (auto simp: add_to_history_def split: option.splits)

lemma placeholder_not_recorded:
  "add_to_history h [''angle'' \<mapsto> 0, ''steering_angle_velocity'' \<mapsto> 0, ''speed'' \<mapsto> 0] = Inr h"
  by (simp add: add_to_history_def)

subsection \<open>The observation cycle\<close>

lemma get_imgs_feed:
  "get_imgs labels c =
     (list_map_raising bytestr_to_np (shd (image_feed c)),
      (send (SimGetImages (map label_to_func labels)) c)\<lparr>image_feed := stl (image_feed c)\<rparr>)"
  by (simp add: get_imgs_def simGetImages_def)

lemma lidar_feed_after_imgs: "lidar_feed (snd (get_imgs labels c)) = lidar_feed c"
  by (simp add: get_imgs_feed send_def)

lemma process_lidar_ok:
  "length (point_cloud ld) mod 3 = 0 \<Longrightarrow> process_lidar ld = Inr None"
  by (simp add: process_lidar_def pc_to_np_def reshape_rows3_def)

lemma process_lidar_raises:
  "length (point_cloud ld) mod 3 \<noteq> 0 \<Longrightarrow> process_lidar ld = Inl ValueError"
  by (simp add: process_lidar_def pc_to_np_def reshape_rows3_def)

lemma get_obs_returns:
  assumes imgs: "list_map_raising bytestr_to_np (shd (image_feed (client e))) = Inr imgs"
    and short: "\<forall>j<k. length (point_cloud (lidar_feed (client e) !! j)) < 3"
    and ready: "3 \<le> length (point_cloud (lidar_feed (client e) !! k))"
    and whole: "length (point_cloud (lidar_feed (client e) !! k)) mod 3 = 0"
  shows "get_obs e =
     Some (Inr \<lparr>lidar_pc = None,
                steer = [''angle'' \<mapsto> 0, ''steering_angle_velocity'' \<mapsto> 0, ''speed'' \<mapsto> 0],
                img = imgs\<rparr>,
           e\<lparr>client := (send (SimGetImages [label_to_func ''front_center'']) (client e))
                 \<lparr>image_feed := stl (image_feed (client e)),
                  lidar_feed := sdrop (Suc k) (lidar_feed (client e))\<rparr>\<rparr>)"
proof -
  let ?c1 = "(send (SimGetImages [label_to_func ''front_center'']) (client e))
                 \<lparr>image_feed := stl (image_feed (client e))\<rparr>"
  have g: "get_imgs [''front_center''] (client e) = (Inr imgs, ?c1)"
    by (simp add: get_imgs_feed imgs)
  have feed: "lidar_feed ?c1 = lidar_feed (client e)" by (simp add: send_def)
  have p: "poll_lidar ?c1 = Some (lidar_feed ?c1 !! k, ?c1\<lparr>lidar_feed := sdrop (Suc k) (lidar_feed ?c1)\<rparr>)"
    by (rule poll_at) (use short ready feed in simp_all)
  have pl: "process_lidar (lidar_feed (client e) !! k) = Inr None"
    using whole by (rule process_lidar_ok)
  show ?thesis
    unfolding get_obs_def g
    by (simp add: p pl placeholder_not_recorded feed)
qed

lemma get_obs_never:
  "list_map_raising bytestr_to_np (shd (image_feed (client e))) = Inr imgs \<Longrightarrow>
   \<forall>k. length (point_cloud (lidar_feed (client e) !! k)) < 3 \<Longrightarrow> get_obs e = None"
proof -
  assume imgs: "list_map_raising bytestr_to_np (shd (image_feed (client e))) = Inr imgs"
    and never: "\<forall>k. length (point_cloud (lidar_feed (client e) !! k)) < 3"
  let ?c1 = "(send (SimGetImages [label_to_func ''front_center'']) (client e))
                 \<lparr>image_feed := stl (image_feed (client e))\<rparr>"
  have g: "get_imgs [''front_center''] (client e) = (Inr imgs, ?c1)"
    by (simp add: get_imgs_feed imgs)
  have "poll_lidar ?c1 = None"
    by (rule poll_never) (use never in \<open>simp add: send_def\<close>)
  then show ?thesis unfolding get_obs_def g by simp
qed

lemma step_returns_env:
  assumes imgs: "list_map_raising bytestr_to_np (shd (image_feed (client e))) = Inr imgs"
    and short: "\<forall>j<k. length (point_cloud (lidar_feed (client e) !! j)) < 3"
    and ready: "3 \<le> length (point_cloud (lidar_feed (client e) !! k))"
    and whole: "length (point_cloud (lidar_feed (client e) !! k)) mod 3 = 0"
  shows "step e a =
     Some (Inr (\<lparr>lidar_pc = None,
                 steer = [''angle'' \<mapsto> 0, ''steering_angle_velocity'' \<mapsto> 0, ''speed'' \<mapsto> 0],
                 img = imgs\<rparr>, 0, False, Map.empty),
           e\<lparr>client := (send (SimGetImages [label_to_func ''front_center''])
                          (send (SetCarControls \<lparr>throttle = a ''speed'', steering = a ''angle''\<rparr>)
                             (client e)))
                 \<lparr>image_feed := stl (image_feed (client e)),
                  lidar_feed := sdrop (Suc k) (lidar_feed (client e))\<rparr>\<rparr>)"
proof -
  let ?e1 = "e\<lparr>client := send (SetCarControls \<lparr>throttle = a ''speed'', steering = a ''angle''\<rparr>) (client e)\<rparr>"
  have "get_obs ?e1 = Some (Inr \<lparr>lidar_pc = None,
                steer = [''angle'' \<mapsto> 0, ''steering_angle_velocity'' \<mapsto> 0, ''speed'' \<mapsto> 0],
                img = imgs\<rparr>,
           ?e1\<lparr>client := (send (SimGetImages [label_to_func ''front_center'']) (client ?e1))
                 \<lparr>image_feed := stl (image_feed (client ?e1)),
                  lidar_feed := sdrop (Suc k) (lidar_feed (client ?e1))\<rparr>\<rparr>)"
    by (rule get_obs_returns) (use assms in \<open>simp_all add: send_def\<close>)
  then show ?thesis
    by (simp add: step_def Let_def get_reward_def tooclose_def send_def)
qed

lemma step_returns:
  assumes "list_map_raising bytestr_to_np (shd (image_feed (client e))) = Inr imgs"
    and "\<forall>j<k. length (point_cloud (lidar_feed (client e) !! j)) < 3"
    and "3 \<le> length (point_cloud (lidar_feed (client e) !! k))"
    and "length (point_cloud (lidar_feed (client e) !! k)) mod 3 = 0"
  shows "\<exists>e'. step e a =
     Some (Inr (\<lparr>lidar_pc = None,
                 steer = [''angle'' \<mapsto> 0, ''steering_angle_velocity'' \<mapsto> 0, ''speed'' \<mapsto> 0],
                 img = imgs\<rparr>, 0, False, Map.empty), e')"
  using step_returns_env [OF assms] by (rule exI)

lemma reset_returns:
  assumes imgs: "list_map_raising bytestr_to_np (shd (image_feed (client e))) = Inr imgs"
    and short: "\<forall>j<k. length (point_cloud (lidar_feed (client e) !! j)) < 3"
    and ready: "3 \<le> length (point_cloud (lidar_feed (client e) !! k))"
    and whole: "length (point_cloud (lidar_feed (client e) !! k)) mod 3 = 0"
  shows "reset e =
     Some (Inr \<lparr>lidar_pc = None,
                steer = [''angle'' \<mapsto> 0, ''steering_angle_velocity'' \<mapsto> 0, ''speed'' \<mapsto> 0],
                img = imgs\<rparr>,
           e\<lparr>client := (send (SimGetImages [label_to_func ''front_center'']) (send SimReset (client e)))
                 \<lparr>image_feed := stl (image_feed (client e)),
                  lidar_feed := sdrop (Suc k) (lidar_feed (client e))\<rparr>\<rparr>)"
proof -
  let ?e1 = "e\<lparr>client := send SimReset (client e)\<rparr>"
  have "get_obs ?e1 = Some (Inr \<lparr>lidar_pc = None,
                steer = [''angle'' \<mapsto> 0, ''steering_angle_velocity'' \<mapsto> 0, ''speed'' \<mapsto> 0],
                img = imgs\<rparr>,
           ?e1\<lparr>client := (send (SimGetImages [label_to_func ''front_center'']) (client ?e1))
                 \<lparr>image_feed := stl (image_feed (client ?e1)),
                  lidar_feed := sdrop (Suc k) (lidar_feed (client ?e1))\<rparr>\<rparr>)"
    by (rule get_obs_returns) (use assms in \<open>simp_all add: send_def\<close>)
  then show ?thesis
    by (simp add: reset_def send_def)
qed

lemma get_obs_raises:
  assumes imgs: "list_map_raising bytestr_to_np (shd (image_feed (client e))) = Inr imgs"
    and short: "\<forall>j<k. length (point_cloud (lidar_feed (client e) !! j)) < 3"
    and ready: "3 \<le> length (point_cloud (lidar_feed (client e) !! k))"
    and part: "length (point_cloud (lidar_feed (client e) !! k)) mod 3 \<noteq> 0"
  shows "map_option fst (get_obs e) = Some (Inl ValueError)"
proof -
  let ?c1 = "(send (SimGetImages [label_to_func ''front_center'']) (client e))
                 \<lparr>image_feed := stl (image_feed (client e))\<rparr>"
  have g: "get_imgs [''front_center''] (client e) = (Inr imgs, ?c1)"
    by (simp add: get_imgs_feed imgs)
  have feed: "lidar_feed ?c1 = lidar_feed (client e)" by (simp add: send_def)
  have p: "poll_lidar ?c1 = Some (lidar_feed ?c1 !! k, ?c1\<lparr>lidar_feed := sdrop (Suc k) (lidar_feed ?c1)\<rparr>)"
    by (rule poll_at) (use short ready feed in simp_all)
  have pl: "process_lidar (lidar_feed (client e) !! k) = Inl ValueError"
    using part by (rule process_lidar_raises)
  show ?thesis
    unfolding get_obs_def g
    by (simp add: p pl feed)
qed

lemma get_obs_history: "get_obs e = Some (r, e') \<Longrightarrow> history e' = history e"
  by (auto simp: get_obs_def Let_def placeholder_not_recorded
      split: prod.splits sum.splits option.splits)

lemma get_obs_lidar_pc: "get_obs e = Some (Inr ob, e') \<Longrightarrow> lidar_pc ob = None"
  by (auto simp: get_obs_def Let_def process_lidar_def placeholder_not_recorded
      split: prod.splits sum.splits option.splits)

lemma reset_history: "reset e = Some (r, e') \<Longrightarrow> history e' = history e"
  by (auto simp: reset_def dest: get_obs_history)

lemma step_history: "step e a = Some (r, e') \<Longrightarrow> history e' = history e"
  by (auto simp: step_def Let_def dest: get_obs_history split: option.splits sum.splits prod.splits)

lemma run_history: "run calls e = Some e' \<Longrightarrow> history e' = history e"
proof (induction calls e rule: run.induct)
  case (1 e)
  then show ?case by simp
next
  case (2 calls e)
  then show ?case by (auto split: option.splits dest: reset_history)
next
  case (3 a calls e)
  then show ?case by (auto split: option.splits dest: step_history)
qed

lemma step_values:
  "step e a = Some (Inr (ob, reward, dn, info), e') \<Longrightarrow> reward = 0 \<and> dn = False \<and> info = Map.empty"
  by (auto simp: step_def Let_def get_reward_def tooclose_def split: option.splits sum.splits prod.splits)

subsection \<open>Claims on the observation and the step result\<close>

lemma mock_feed:
  "shd (image_feed (client (init mock_client))) = [frame_2x2 12]"
  "lidar_feed (client (init mock_client)) !! k = sample4"
  by (simp_all add: init_def mock_client_def send_def)

lemma mock_shd: "shd (lidar_feed (client (init mock_client))) = sample4"
  by (simp add: init_def mock_client_def send_def)

lemma decode_frame: "bytestr_to_np (frame_2x2 12) = Inr \<lparr>shape = (2, 2, 3), buffer = replicate 12 0\<rparr>"
  by (simp add: bytestr_to_np_def reshape_hw_def frame_2x2_def npy_intp_max_def)

lemma sample4_len: "length (point_cloud sample4) = 12"
  by (simp add: sample4_def)

text \<open>
  Claim C1. The observation of \<^verbatim>\<open>reset()\<close> and of \<^verbatim>\<open>step()\<close> should carry, under the
  LiDAR key, the planar points of the accepted sample, as many as the sample has points
  and in its order. Evaluated on the simulator that answers with the four-point sample:
  the geometry transform does compute the four exchanged pairs, but \<^verbatim>\<open>process_lidar\<close>
  returns nothing, so \<^verbatim>\<open>reset()\<close> and the following
  \<^verbatim>\<open>step({"angle": 0.0, "speed": 0.0})\<close> both return an observation whose
  \<^verbatim>\<open>lidar_pc\<close> is \<^verbatim>\<open>None\<close>, not a sequence of length 4.
\<close>

theorem lidar_pc_of_reset_then_step:
  "pc_to_np sample4 = Inr [(2, 1), (5, 4), (8, 7), (11, 10)]
   \<and> map_option fst (reset (init mock_client)) =
       Some (Inr \<lparr>lidar_pc = None,
                  steer = [''angle'' \<mapsto> 0, ''steering_angle_velocity'' \<mapsto> 0, ''speed'' \<mapsto> 0],
                  img = [\<lparr>shape = (2, 2, 3), buffer = replicate 12 0\<rparr>]\<rparr>)
   \<and> map_option fst (Option.bind (reset (init mock_client)) (\<lambda>(r, e1). step e1 zero_action)) =
       Some (Inr (\<lparr>lidar_pc = None,
                   steer = [''angle'' \<mapsto> 0, ''steering_angle_velocity'' \<mapsto> 0, ''speed'' \<mapsto> 0],
                   img = [\<lparr>shape = (2, 2, 3), buffer = replicate 12 0\<rparr>]\<rparr>,
                  0, False, Map.empty))"
proof -
  let ?imgs = "[\<lparr>shape = (2, 2, 3), buffer = replicate 12 (0 :: 8 word)\<rparr>]"
  let ?e0 = "init mock_client"
  let ?e1 = "?e0\<lparr>client := (send (SimGetImages [label_to_func ''front_center'']) (send SimReset (client ?e0)))
                 \<lparr>image_feed := stl (image_feed (client ?e0)),
                  lidar_feed := sdrop (Suc 0) (lidar_feed (client ?e0))\<rparr>\<rparr>"
  have a: "pc_to_np sample4 = Inr [(2, 1), (5, 4), (8, 7), (11, 10)]"
    by (simp add: pc_to_np_def reshape_rows3_def sample4_def)
  have r: "reset ?e0 = Some (Inr \<lparr>lidar_pc = None,
                  steer = [''angle'' \<mapsto> 0, ''steering_angle_velocity'' \<mapsto> 0, ''speed'' \<mapsto> 0],
                  img = ?imgs\<rparr>, ?e1)"
    by (rule reset_returns) (simp_all add: mock_feed mock_shd decode_frame sample4_len)
  have "\<exists>e'. step ?e1 zero_action = Some (Inr (\<lparr>lidar_pc = None,
                   steer = [''angle'' \<mapsto> 0, ''steering_angle_velocity'' \<mapsto> 0, ''speed'' \<mapsto> 0],
                   img = ?imgs\<rparr>, 0, False, Map.empty), e')"
    by (rule step_returns[where k = 0])
       (simp_all add: init_def mock_client_def send_def decode_frame sample4_len)
  then obtain e2 where s: "step ?e1 zero_action = Some (Inr (\<lparr>lidar_pc = None,
                   steer = [''angle'' \<mapsto> 0, ''steering_angle_velocity'' \<mapsto> 0, ''speed'' \<mapsto> 0],
                   img = ?imgs\<rparr>, 0, False, Map.empty), e2)" ..
  have b: "Option.bind (reset ?e0) (\<lambda>(r, e1). step e1 zero_action) = step ?e1 zero_action"
    by (simp only: r Option.bind.simps prod.case)
  have c2: "map_option fst (reset ?e0) =
       Some (Inr \<lparr>lidar_pc = None,
                  steer = [''angle'' \<mapsto> 0, ''steering_angle_velocity'' \<mapsto> 0, ''speed'' \<mapsto> 0],
                  img = ?imgs\<rparr>)"
    by (simp only: r option.map fst_conv)
  have c3: "map_option fst (Option.bind (reset ?e0) (\<lambda>(r, e1). step e1 zero_action)) =
       Some (Inr (\<lparr>lidar_pc = None,
                   steer = [''angle'' \<mapsto> 0, ''steering_angle_velocity'' \<mapsto> 0, ''speed'' \<mapsto> 0],
                   img = ?imgs\<rparr>,
                  0, False, Map.empty))"
    by (simp only: b s option.map fst_conv)
  from a c2 c3 show ?thesis by (intro conjI)
qed

text \<open>
  The recording condition \<^verbatim>\<open>abs(angle) > 0.05 and angle < -0.05\<close> is satisfiable: the
  angle -0.06 meets both conjuncts, and the command is appended forty times to the empty
  history.
\<close>

theorem add_to_history_left_lock_recorded:
  "add_to_history (deque_new 500)
     [''angle'' \<mapsto> - 0.06, ''steering_angle_velocity'' \<mapsto> 0, ''speed'' \<mapsto> 0]
   = Inr \<lparr>maxlen = 500,
          items = replicate 40 [''angle'' \<mapsto> - 0.06, ''steering_angle_velocity'' \<mapsto> 0, ''speed'' \<mapsto> 0]\<rparr>"
  by (simp add: add_to_history_cases append_forty deque_new_def)

text \<open>
  Claim C2, as the code has it. For a steering command with an angle, the recording
  condition holds exactly when the angle is below -0.05. Then \<^verbatim>\<open>add_to_history\<close>
  appends forty copies of the command, the bounded history dropping its oldest entries
  beyond its capacity; for every other angle the history is unchanged.
\<close>

theorem add_to_history_trigger:
  "s ''angle'' = Some a \<Longrightarrow> length (items h) \<le> maxlen h \<Longrightarrow>
   ((\<bar>a\<bar> > 0.05 \<and> a < - 0.05) = (a < - 0.05))
   \<and> add_to_history h s =
       Inr (if a < - 0.05
            then h\<lparr>items := drop (length (items h) + 40 - maxlen h) (items h @ replicate 40 s)\<rparr>
            else h)"
  by (auto simp: add_to_history_cases append_forty)

theorem add_to_history_trigger_witness:
  "add_to_history \<lparr>maxlen = 500, items = replicate 480 [''angle'' \<mapsto> 0.3]\<rparr> [''angle'' \<mapsto> - 0.3]
   = Inr \<lparr>maxlen = 500,
          items = replicate 460 [''angle'' \<mapsto> 0.3] @ replicate 40 [''angle'' \<mapsto> - 0.3]\<rparr>
   \<and> add_to_history \<lparr>maxlen = 500, items = []\<rparr> [''angle'' \<mapsto> - 0.05] = Inr \<lparr>maxlen = 500, items = []\<rparr>"
  using add_to_history_trigger [of "[''angle'' \<mapsto> - 0.3]" "- 0.3" "\<lparr>maxlen = 500, items = replicate 480 [''angle'' \<mapsto> 0.3]\<rparr>"]
    add_to_history_trigger [of "[''angle'' \<mapsto> - 0.05]" "- 0.05" "\<lparr>maxlen = 500, items = []\<rparr>"]
  by (simp add: replicate_add[symmetric] del: replicate_add)

text \<open>
  Against a simulator that never delivers a LiDAR point, \<^verbatim>\<open>step\<close> does not return:
  the polling loop inside the observation cycle has no bound.
\<close>

theorem step_never_returns_without_lidar:
  "step (init never_ready_client) zero_action = None"
proof -
  let ?e1 = "(init never_ready_client)\<lparr>client := send (SetCarControls \<lparr>throttle = zero_action ''speed'', steering = zero_action ''angle''\<rparr>) (client (init never_ready_client))\<rparr>"
  have "get_obs ?e1 = None"
    by (rule get_obs_never[where imgs = "[\<lparr>shape = (2, 2, 3), buffer = replicate 12 0\<rparr>]"])
       (simp_all add: init_def never_ready_client_def send_def decode_frame)
  then show ?thesis by (simp add: step_def Let_def)
qed

text \<open>
  Claim C3, as the code has it. Whenever \<^verbatim>\<open>step(action)\<close> returns a result, its reward
  is 0, its done flag is False and its info dictionary is empty, for every action and
  environment. It does return one whenever the camera responses decode and the simulator
  delivers, after finitely many samples of fewer than 3 scalars, a sample of at least 3
  scalars whose size is a multiple of 3.
\<close>

theorem step_pinned_baseline:
  "(\<forall>ob reward dn info e'.
      step e a = Some (Inr (ob, reward, dn, info), e') \<longrightarrow> reward = 0 \<and> dn = False \<and> info = Map.empty)
   \<and> ((\<exists>imgs. list_map_raising bytestr_to_np (shd (image_feed (client e))) = Inr imgs)
        \<and> (\<exists>k. (\<forall>j<k. length (point_cloud (lidar_feed (client e) !! j)) < 3)
               \<and> 3 \<le> length (point_cloud (lidar_feed (client e) !! k))
               \<and> length (point_cloud (lidar_feed (client e) !! k)) mod 3 = 0)
       \<longrightarrow> (\<exists>ob e'. step e a = Some (Inr (ob, 0, False, Map.empty), e')))"
proof (rule conjI)
  show "\<forall>ob reward dn info e'.
      step e a = Some (Inr (ob, reward, dn, info), e') \<longrightarrow> reward = 0 \<and> dn = False \<and> info = Map.empty"
    using step_values by blast
next
  show "(\<exists>imgs. list_map_raising bytestr_to_np (shd (image_feed (client e))) = Inr imgs)
        \<and> (\<exists>k. (\<forall>j<k. length (point_cloud (lidar_feed (client e) !! j)) < 3)
               \<and> 3 \<le> length (point_cloud (lidar_feed (client e) !! k))
               \<and> length (point_cloud (lidar_feed (client e) !! k)) mod 3 = 0)
       \<longrightarrow> (\<exists>ob e'. step e a = Some (Inr (ob, 0, False, Map.empty), e'))"
  proof
    assume "(\<exists>imgs. list_map_raising bytestr_to_np (shd (image_feed (client e))) = Inr imgs)
        \<and> (\<exists>k. (\<forall>j<k. length (point_cloud (lidar_feed (client e) !! j)) < 3)
               \<and> 3 \<le> length (point_cloud (lidar_feed (client e) !! k))
               \<and> length (point_cloud (lidar_feed (client e) !! k)) mod 3 = 0)"
    then obtain imgs k where
      "list_map_raising bytestr_to_np (shd (image_feed (client e))) = Inr imgs"
      "\<forall>j<k. length (point_cloud (lidar_feed (client e) !! j)) < 3"
      "3 \<le> length (point_cloud (lidar_feed (client e) !! k))"
      "length (point_cloud (lidar_feed (client e) !! k)) mod 3 = 0"
      by auto
    from step_returns[OF this, of a]
    show "\<exists>ob e'. step e a = Some (Inr (ob, 0, False, Map.empty), e')" by blast
  qed
qed

theorem step_pinned_baseline_witness:
  "\<exists>ob e'. step (init mock_client) [''angle'' \<mapsto> - 0.5, ''speed'' \<mapsto> 1] = Some (Inr (ob, 0, False, Map.empty), e')"
proof -
  have imgs: "\<exists>imgs. list_map_raising bytestr_to_np (shd (image_feed (client (init mock_client)))) = Inr imgs"
    by (simp add: mock_feed decode_frame)
  have lidar: "\<exists>k. (\<forall>j<k. length (point_cloud (lidar_feed (client (init mock_client)) !! j)) < 3)
               \<and> 3 \<le> length (point_cloud (lidar_feed (client (init mock_client)) !! k))
               \<and> length (point_cloud (lidar_feed (client (init mock_client)) !! k)) mod 3 = 0"
    by (intro exI[of _ 0]) (simp add: mock_feed mock_shd sample4_len)
  from imgs lidar have ready:
    "(\<exists>imgs. list_map_raising bytestr_to_np (shd (image_feed (client (init mock_client)))) = Inr imgs)
     \<and> (\<exists>k. (\<forall>j<k. length (point_cloud (lidar_feed (client (init mock_client)) !! j)) < 3)
               \<and> 3 \<le> length (point_cloud (lidar_feed (client (init mock_client)) !! k))
               \<and> length (point_cloud (lidar_feed (client (init mock_client)) !! k)) mod 3 = 0)"
    by (rule conjI)
  show ?thesis
    by (rule step_pinned_baseline [of "init mock_client" "[''angle'' \<mapsto> - 0.5, ''speed'' \<mapsto> 1]",
          THEN conjunct2, THEN mp, OF ready])
qed

subsection \<open>Claims on the history, the polling loop and image decoding\<close>

lemma history_init: "history (init c) = \<lparr>maxlen = 500, items = []\<rparr>"
  by (simp add: init_def deque_new_def)

text \<open>
  Claim C5. The history buffer never holds more than 500 entries: whatever sequence of
  entries is appended to the buffer of a new environment, at most 500 remain; after 501
  appends exactly 500 remain, and the one dropped is the oldest.
\<close>

theorem history_bounded_fifo:
  "length (items (foldl deque_append (history (init c)) es)) \<le> 500
   \<and> (length (oldest # rest) = 501 \<longrightarrow>
        items (foldl deque_append (history (init c)) (oldest # rest)) = rest
        \<and> length (items (foldl deque_append (history (init c)) (oldest # rest))) = 500)"
proof -
  have closed: "\<And>xs. items (foldl deque_append (history (init c)) xs) = drop (length xs - 500) xs"
    by (simp add: history_init foldl_deque_append)
  have bound: "length (items (foldl deque_append (history (init c)) es)) \<le> 500"
    unfolding closed by simp
  have fifo: "length (oldest # rest) = 501 \<longrightarrow>
        items (foldl deque_append (history (init c)) (oldest # rest)) = rest
        \<and> length (items (foldl deque_append (history (init c)) (oldest # rest))) = 500"
    unfolding closed by simp
  from bound fifo show ?thesis ..
qed

theorem history_bounded_fifo_witness:
  "items (foldl deque_append (history (init mock_client))
            (map (\<lambda>n. [''angle'' \<mapsto> real n]) [0..<501]))
   = map (\<lambda>n. [''angle'' \<mapsto> real n]) [1..<501]"
proof -
  have split: "map (\<lambda>n. [''angle'' \<mapsto> real n]) [0..<501]
      = [''angle'' \<mapsto> real 0] # map (\<lambda>n. [''angle'' \<mapsto> real n]) [1..<501]"
    by (subst upt_conv_Cons) simp_all
  have len: "length ([''angle'' \<mapsto> real 0] # map (\<lambda>n. [''angle'' \<mapsto> real n]) [1..<501]) = 501"
    by simp
  from history_bounded_fifo [of mock_client "[]" "[''angle'' \<mapsto> real 0]"
       "map (\<lambda>n. [''angle'' \<mapsto> real n]) [1..<501]", THEN conjunct2, THEN mp, OF len]
  show ?thesis unfolding split by (rule conjunct1)
qed

text \<open>
  Claim C6. The polling loop hands on only a sample of at least 3 scalars; on a sample of
  fewer than 3 scalars it polls again; and a sample of exactly 3 scalars is accepted on
  the iteration it arrives, that is after the shorter samples before it and before any
  later one is requested.
\<close>

theorem poll_lidar_min_three_scalars:
  "(\<forall>ld c'. poll_lidar c = Some (ld, c') \<longrightarrow> 3 \<le> length (point_cloud ld))
   \<and> (length (point_cloud (fst (getLidarData c))) < 3 \<longrightarrow>
        poll_lidar c = poll_lidar (snd (getLidarData c)))
   \<and> ((\<forall>j<k. length (point_cloud (lidar_feed c !! j)) < 3)
        \<and> length (point_cloud (lidar_feed c !! k)) = 3 \<longrightarrow>
        poll_lidar c = Some (lidar_feed c !! k, c\<lparr>lidar_feed := sdrop (Suc k) (lidar_feed c)\<rparr>))"
proof (intro conjI)
  show "\<forall>ld c'. poll_lidar c = Some (ld, c') \<longrightarrow> 3 \<le> length (point_cloud ld)"
  proof (intro allI impI)
    fix ld c' assume "poll_lidar c = Some (ld, c')"
    from poll_Some[OF this] show "3 \<le> length (point_cloud ld)" by auto
  qed
next
  show "length (point_cloud (fst (getLidarData c))) < 3 \<longrightarrow>
        poll_lidar c = poll_lidar (snd (getLidarData c))"
    by (simp add: getLidarData_def poll_later)
next
  show "(\<forall>j<k. length (point_cloud (lidar_feed c !! j)) < 3)
        \<and> length (point_cloud (lidar_feed c !! k)) = 3 \<longrightarrow>
        poll_lidar c = Some (lidar_feed c !! k, c\<lparr>lidar_feed := sdrop (Suc k) (lidar_feed c)\<rparr>)"
    using poll_at[of k c] by simp
qed

theorem poll_lidar_min_three_scalars_witness:
  "poll_lidar slow_client =
     Some (\<lparr>point_cloud = [7, 8, 9]\<rparr>, slow_client\<lparr>lidar_feed := sconst \<lparr>point_cloud = []\<rparr>\<rparr>)"
proof -
  have h: "(\<forall>j<2. length (point_cloud (lidar_feed slow_client !! j)) < 3)
        \<and> length (point_cloud (lidar_feed slow_client !! 2)) = 3"
    by (simp add: slow_client_def numeral_2_eq_2 All_less_Suc)
  from poll_lidar_min_three_scalars [of slow_client 2, THEN conjunct2, THEN conjunct2, THEN mp, OF h]
  show ?thesis by (simp add: slow_client_def numeral_2_eq_2)
qed

text \<open>
  A 2 by 2 response with a buffer of 11 bytes does not decode; the exception is numpy's
  \<^verbatim>\<open>ValueError\<close>, not an error of the kind \<open>ObservationUnavailable\<close>.
\<close>

theorem image_decode_mismatch_raises_ValueError:
  "bytestr_to_np (frame_2x2 11) = Inl ValueError
   \<and> bytestr_to_np (frame_2x2 11) \<noteq> Inl ObservationUnavailable"
  by (simp add: bytestr_to_np_def reshape_hw_def frame_2x2_def npy_intp_max_def)

lemma bytestr_to_np_cases:
  "bytestr_to_np rep =
     (if 0 < height rep \<and> 0 < width rep \<and> height rep * width rep \<le> npy_intp_max
         \<and> int (length (image_data_uint8 rep)) mod (height rep * width rep) = 0
      then Inr \<lparr>shape = (nat (height rep), nat (width rep),
                         length (image_data_uint8 rep) div nat (height rep * width rep)),
                buffer = image_data_uint8 rep\<rparr>
      else Inl ValueError)"
proof -
  have fits: "height rep \<le> npy_intp_max \<and> width rep \<le> npy_intp_max"
    if "0 < height rep" "0 < width rep" "height rep * width rep \<le> npy_intp_max"
  proof -
    from that(1,2) have "height rep * 1 \<le> height rep * width rep"
      by (intro mult_left_mono) simp_all
    moreover from that(1,2) have "1 * width rep \<le> height rep * width rep"
      by (intro mult_right_mono) simp_all
    ultimately show ?thesis using that(3) by simp
  qed
  have zero: "height rep * width rep = 0 \<longleftrightarrow> height rep = 0 \<or> width rep = 0"
    by simp
  show ?thesis
    unfolding bytestr_to_np_def reshape_hw_def
    using fits by (auto simp: not_less zero)
qed

lemma bytestr_to_np_error: "bytestr_to_np rep = Inl err \<Longrightarrow> err = ValueError"
  by (simp add: bytestr_to_np_cases split: if_splits)

lemma list_map_raising_error:
  "\<exists>rep\<in>set reps. \<exists>err. bytestr_to_np rep = Inl err \<Longrightarrow>
   list_map_raising bytestr_to_np reps = Inl ValueError"
proof (induction reps)
  case Nil
  then show ?case by simp
next
  case (Cons rep reps)
  show ?case
  proof (cases "bytestr_to_np rep")
    case (Inl err)
    then show ?thesis by (simp add: bytestr_to_np_error)
  next
    case (Inr arr)
    with Cons.prems have "\<exists>rep\<in>set reps. \<exists>err. bytestr_to_np rep = Inl err" by auto
    then have "list_map_raising bytestr_to_np reps = Inl ValueError" by (rule Cons.IH)
    with Inr show ?thesis by simp
  qed
qed

lemma get_obs_decode_error:
  "\<exists>rep\<in>set (shd (image_feed (client e))). \<exists>err. bytestr_to_np rep = Inl err \<Longrightarrow>
   map_option fst (get_obs e) = Some (Inl ValueError)"
  by (simp add: get_obs_def get_imgs_feed list_map_raising_error)

lemma reset_decode_error:
  "\<exists>rep\<in>set (shd (image_feed (client e))). \<exists>err. bytestr_to_np rep = Inl err \<Longrightarrow>
   map_option fst (reset e) = Some (Inl ValueError)"
  unfolding reset_def by (rule get_obs_decode_error) (simp add: send_def)

lemma step_decode_error:
  assumes "\<exists>rep\<in>set (shd (image_feed (client e))). \<exists>err. bytestr_to_np rep = Inl err"
  shows "map_option fst (step e a) = Some (Inl ValueError)"
proof -
  let ?e1 = "e\<lparr>client := send (SetCarControls \<lparr>throttle = a ''speed'', steering = a ''angle''\<rparr>) (client e)\<rparr>"
  have "map_option fst (get_obs ?e1) = Some (Inl ValueError)"
    by (rule get_obs_decode_error) (use assms in \<open>simp add: send_def\<close>)
  then obtain e2 where "get_obs ?e1 = Some (Inl ValueError, e2)" by auto
  then show ?thesis by (simp add: step_def Let_def)
qed

text \<open>
  Claim C7, as the code has it. Decoding a response succeeds exactly when height and
  width are positive, height times width fits the 64-bit index type of numpy, and the
  buffer length is a multiple of height times width; the channel count is the quotient
  and the bytes are kept as they are. Otherwise it raises \<^verbatim>\<open>ValueError\<close>. A 2 by 2
  response with 12 bytes decodes to a 2 by 2 by 3 array; with 11 bytes it raises
  \<^verbatim>\<open>ValueError\<close>, and so does an empty buffer declared as \<open>2 ^ 62\<close> by 2. Whenever a
  response in the simulator's answer fails to decode, \<^verbatim>\<open>reset()\<close> and
  \<^verbatim>\<open>step(action)\<close> raise that \<^verbatim>\<open>ValueError\<close> to their caller, for every environment
  and action, instead of returning an observation.
\<close>

theorem bytestr_to_np_decodes:
  "bytestr_to_np rep =
     (if 0 < height rep \<and> 0 < width rep \<and> height rep * width rep \<le> npy_intp_max
         \<and> int (length (image_data_uint8 rep)) mod (height rep * width rep) = 0
      then Inr \<lparr>shape = (nat (height rep), nat (width rep),
                         length (image_data_uint8 rep) div nat (height rep * width rep)),
                buffer = image_data_uint8 rep\<rparr>
      else Inl ValueError)
   \<and> bytestr_to_np (frame_2x2 12) = Inr \<lparr>shape = (2, 2, 3), buffer = replicate 12 0\<rparr>
   \<and> bytestr_to_np (frame_2x2 11) = Inl ValueError
   \<and> bytestr_to_np huge_frame = Inl ValueError
   \<and> ((\<exists>rep\<in>set (shd (image_feed (client e))). \<exists>err. bytestr_to_np rep = Inl err) \<longrightarrow>
        map_option fst (reset e) = Some (Inl ValueError)
        \<and> map_option fst (step e a) = Some (Inl ValueError))"
proof -
  have twelve: "bytestr_to_np (frame_2x2 12) = Inr \<lparr>shape = (2, 2, 3), buffer = replicate 12 0\<rparr>"
    by (simp add: bytestr_to_np_cases frame_2x2_def npy_intp_max_def)
  have eleven: "bytestr_to_np (frame_2x2 11) = Inl ValueError"
    by (simp add: bytestr_to_np_cases frame_2x2_def npy_intp_max_def)
  have huge: "bytestr_to_np huge_frame = Inl ValueError"
    by (simp add: bytestr_to_np_cases huge_frame_def npy_intp_max_def)
  have passed_on: "(\<exists>rep\<in>set (shd (image_feed (client e))). \<exists>err. bytestr_to_np rep = Inl err) \<longrightarrow>
        map_option fst (reset e) = Some (Inl ValueError)
        \<and> map_option fst (step e a) = Some (Inl ValueError)"
    using reset_decode_error [of e] step_decode_error [of e a] by blast
  from bytestr_to_np_cases [of rep] twelve eleven huge passed_on show ?thesis by (intro conjI)
qed

theorem bytestr_to_np_decodes_witness:
  "map_option fst (reset (init bad_image_client)) = Some (Inl ValueError)
   \<and> map_option fst (step (init bad_image_client) zero_action) = Some (Inl ValueError)"
proof -
  have short: "bytestr_to_np (frame_2x2 11) = Inl ValueError"
    by (simp add: bytestr_to_np_def reshape_hw_def frame_2x2_def npy_intp_max_def)
  have fails: "\<exists>rep\<in>set (shd (image_feed (client (init bad_image_client)))).
                 \<exists>err. bytestr_to_np rep = Inl err"
    by (simp add: init_def bad_image_client_def send_def short)
  show ?thesis
    by (rule bytestr_to_np_decodes [of "frame_2x2 11" "init bad_image_client" zero_action,
          THEN conjunct2, THEN conjunct2, THEN conjunct2, THEN conjunct2, THEN mp, OF fails])
qed

text \<open>
  Claim C8. A steering command with angle 0.06 fails the recording condition:
  \<^verbatim>\<open>add_to_history\<close> leaves the history as it was, with no copy of the command added.
\<close>

theorem add_to_history_ignores_right_lock:
  "s ''angle'' = Some 0.06 \<Longrightarrow> add_to_history h s = Inr h"
  by (simp add: add_to_history_def)

theorem add_to_history_ignores_right_lock_witness:
  "add_to_history \<lparr>maxlen = 500, items = [[''angle'' \<mapsto> - 0.3]]\<rparr>
      [''angle'' \<mapsto> 0.06, ''steering_angle_velocity'' \<mapsto> 0, ''speed'' \<mapsto> 1]
   = Inr \<lparr>maxlen = 500, items = [[''angle'' \<mapsto> - 0.3]]\<rparr>"
  using add_to_history_ignores_right_lock
    [of "[''angle'' \<mapsto> 0.06, ''steering_angle_velocity'' \<mapsto> 0, ''speed'' \<mapsto> 1]"
        "\<lparr>maxlen = 500, items = [[''angle'' \<mapsto> - 0.3]]\<rparr>"]
  by simp

text \<open>
  Claim C9. \<^verbatim>\<open>reset()\<close> never clears or shrinks the history: whatever it returns or
  raises, the history after the call is the history before it; and the same holds after
  any sequence of \<^verbatim>\<open>reset\<close> and \<^verbatim>\<open>step\<close> calls on the environment.
\<close>

theorem reset_keeps_history:
  "(\<forall>r e'. reset e = Some (r, e') \<longrightarrow> history e' = history e)
   \<and> (\<forall>e'. run calls e = Some e' \<longrightarrow> history e' = history e)"
  using reset_history run_history by blast

lemma reset_recorded_env: "\<exists>r e'. reset recorded_env = Some (r, e')"
  using reset_returns [of recorded_env "[\<lparr>shape = (2, 2, 3), buffer = replicate 12 0\<rparr>]" 0]
  by (simp add: recorded_env_def mock_client_def decode_frame sample4_len)

theorem reset_keeps_history_witness:
  "\<exists>r e'. reset recorded_env = Some (r, e')
      \<and> history e' = \<lparr>maxlen = 500, items = replicate 40 [''angle'' \<mapsto> - 0.3]\<rparr>"
proof -
  from reset_recorded_env obtain r e' where ret: "reset recorded_env = Some (r, e')" by blast
  with reset_keeps_history [of recorded_env "[]"] have "history e' = history recorded_env" by blast
  with ret show ?thesis by (simp add: recorded_env_def)
qed

text \<open>
  Claim C10. Through \<^verbatim>\<open>reset\<close> and \<^verbatim>\<open>step\<close> the history stays empty: the observation
  cycle offers the recording path only the placeholder command with angle 0.0, so after
  any sequence of calls on a new environment the buffer holds nothing.
\<close>

theorem history_empty_through_interface:
  "run calls (init c) = Some e' \<Longrightarrow> items (history e') = []"
  by (drule run_history) (simp add: history_init)

lemma run_returns_on_mock:
  "lidar_feed (client e) = sconst sample4 \<Longrightarrow> image_feed (client e) = sconst [frame_2x2 12] \<Longrightarrow>
   \<exists>e'. run calls e = Some e'"
proof (induction calls e rule: run.induct)
  case (1 e)
  then show ?case by simp
next
  case (2 calls e)
  have "reset e = Some (Inr \<lparr>lidar_pc = None,
                steer = [''angle'' \<mapsto> 0, ''steering_angle_velocity'' \<mapsto> 0, ''speed'' \<mapsto> 0],
                img = [\<lparr>shape = (2, 2, 3), buffer = replicate 12 0\<rparr>]\<rparr>,
           e\<lparr>client := (send (SimGetImages [label_to_func ''front_center'']) (send SimReset (client e)))
                 \<lparr>image_feed := stl (image_feed (client e)),
                  lidar_feed := sdrop (Suc 0) (lidar_feed (client e))\<rparr>\<rparr>)" (is "_ = Some (?r, ?e)")
    by (rule reset_returns) (simp_all add: 2 decode_frame sample4_len)
  moreover have "\<exists>e'. run calls ?e = Some e'"
    by (rule "2.IH"[OF calculation]) (simp_all add: 2)
  ultimately show ?case by simp
next
  case (3 a calls e)
  have "step e a = Some (Inr (\<lparr>lidar_pc = None,
                 steer = [''angle'' \<mapsto> 0, ''steering_angle_velocity'' \<mapsto> 0, ''speed'' \<mapsto> 0],
                 img = [\<lparr>shape = (2, 2, 3), buffer = replicate 12 0\<rparr>]\<rparr>, 0, False, Map.empty),
           e\<lparr>client := (send (SimGetImages [label_to_func ''front_center''])
                          (send (SetCarControls \<lparr>throttle = a ''speed'', steering = a ''angle''\<rparr>)
                             (client e)))
                 \<lparr>image_feed := stl (image_feed (client e)),
                  lidar_feed := sdrop (Suc 0) (lidar_feed (client e))\<rparr>\<rparr>)" (is "_ = Some (?r, ?e)")
    by (rule step_returns_env) (simp_all add: 3 decode_frame sample4_len)
  moreover have "\<exists>e'. run calls ?e = Some e'"
    by (rule "3.IH"[OF calculation]) (simp_all add: 3)
  ultimately show ?case by simp
qed

theorem history_empty_through_interface_witness:
  "\<exists>e'. run [Reset, Step [''angle'' \<mapsto> - 0.5, ''speed'' \<mapsto> 1], Step zero_action, Reset] (init mock_client)
          = Some e'
        \<and> items (history e') = []"
proof -
  have "\<exists>e'. run [Reset, Step [''angle'' \<mapsto> - 0.5, ''speed'' \<mapsto> 1], Step zero_action, Reset]
               (init mock_client) = Some e'"
    by (rule run_returns_on_mock) (simp_all add: init_def mock_client_def send_def)
  then obtain e' where ret:
    "run [Reset, Step [''angle'' \<mapsto> - 0.5, ''speed'' \<mapsto> 1], Step zero_action, Reset]
       (init mock_client) = Some e'" ..
  from history_empty_through_interface [OF ret] ret show ?thesis by blast
qed

end
